theory Spec2Isabelle
  imports Complex_Main "HOL-Library.AList"
begin

section \<open>Python exceptions\<close>

text \<open>
  Every exception the two modules can raise is a value of \<open>error\<close>; a call that can
  raise returns \<open>error + 'a\<close> with \<open>Inl\<close> for the exception.
\<close>

datatype error = ValueError | KeyError | TypeError | OverflowError | IndexError | AttributeError

section \<open>Python values\<close>

text \<open>
  The values a field can be given and the objects a declaration is configured with.
  A \<open>float\<close> is an IEEE double: an infinity or a finite value, which is a rational
  number (NaN is left out). Comparisons between \<open>int\<close>, \<open>bool\<close> and \<open>float\<close> are exact
  in Python, so they are comparisons of extended rationals. \<open>PDate\<close> is a \<open>date\<close> or
  \<open>datetime\<close> object, \<open>PType\<close> a type object (\<open>str\<close>, \<open>int\<close>, \<open>float\<close>, \<open>date\<close>, or any
  other class), \<open>PObj\<close> any other object, one that is no number, string or date and
  has the default comparison by identity.
\<close>

datatype pyfloat = NegInf | Finite rat | PosInf

datatype pytype = T_str | T_int | T_float | T_date | T_other nat

datatype pyval =
    PNone
  | PBool bool
  | PInt int
  | PFloat pyfloat
  | PStr string
  | PDate nat
  | PType pytype
  | PObj nat

fun float_lt :: "pyfloat \<Rightarrow> pyfloat \<Rightarrow> bool" where
  "float_lt NegInf NegInf = False"
| "float_lt NegInf (Finite y) = True"
| "float_lt NegInf PosInf = True"
| "float_lt (Finite x) NegInf = False"
| "float_lt (Finite x) (Finite y) = (x < y)"
| "float_lt (Finite x) PosInf = True"
| "float_lt PosInf y = False"

text \<open>
  \<open>isinstance(value, Real)\<close> holds of \<open>bool\<close>, \<open>int\<close> and \<open>float\<close>; \<open>real_value\<close> is the
  number such a value denotes.
\<close>

fun real_value :: "pyval \<Rightarrow> pyfloat option" where
  "real_value (PBool c) = Some (Finite (if c then 1 else 0))"
| "real_value (PInt n) = Some (Finite (of_int n))"
| "real_value (PFloat f) = Some f"
| "real_value v = None"

definition isinstance_Real :: "pyval \<Rightarrow> bool" where
  "isinstance_Real value = (real_value value \<noteq> None)"

text \<open>
  \<open>x < y\<close> where one operand is a real number: a \<open>TypeError\<close> unless the other is
  one too. \<open>lo < v < hi\<close> is \<open>lo < v and v < hi\<close>: the second comparison is not
  evaluated when the first is false.
\<close>

definition py_lt :: "pyval \<Rightarrow> pyval \<Rightarrow> error + bool" where
  "py_lt x y =
     (case (real_value x, real_value y) of
        (Some p, Some q) \<Rightarrow> Inr (float_lt p q)
      | _ \<Rightarrow> Inl TypeError)"

definition chained_lt :: "pyval \<Rightarrow> pyval \<Rightarrow> pyval \<Rightarrow> error + bool" where
  "chained_lt lo v hi =
     (case py_lt lo v of
        Inl e \<Rightarrow> Inl e
      | Inr c \<Rightarrow> if c then py_lt v hi else Inr False)"

text \<open>
  \<open>float(n)\<close> of an \<open>int\<close> rounds to the nearest double, ties to the even mantissa of
  53 bits, and raises \<open>OverflowError\<close> when the result would not be finite.
  \<open>int(x)\<close> truncates towards zero and raises \<open>OverflowError\<close> on an infinity.
\<close>

fun bit_length :: "nat \<Rightarrow> nat" where
  "bit_length n = (if n = 0 then 0 else Suc (bit_length (n div 2)))"

declare bit_length.simps [simp del]

definition float_of_int :: "int \<Rightarrow> error + pyfloat" where
  "float_of_int n =
     (let m = nat \<bar>n\<bar>;
          k = bit_length m - 53;
          q = m div 2 ^ k;
          r = m mod 2 ^ k;
          q' = (if 2 * r > 2 ^ k \<or> (2 * r = 2 ^ k \<and> odd q) then q + 1 else q);
          v = q' * 2 ^ k
      in if v \<ge> 2 ^ 1024 then Inl OverflowError
         else Inr (Finite (of_int (sgn n * int v))))"

fun py_float :: "pyval \<Rightarrow> error + pyfloat" where
  "py_float (PBool c) = Inr (Finite (if c then 1 else 0))"
| "py_float (PInt n) = float_of_int n"
| "py_float (PFloat f) = Inr f"
| "py_float v = Inl TypeError"

definition trunc :: "rat \<Rightarrow> int" where
  "trunc q = (if 0 \<le> q then \<lfloor>q\<rfloor> else \<lceil>q\<rceil>)"

fun py_int :: "pyval \<Rightarrow> error + int" where
  "py_int (PBool c) = Inr (if c then 1 else 0)"
| "py_int (PInt n) = Inr n"
| "py_int (PFloat (Finite q)) = Inr (trunc q)"
| "py_int (PFloat NegInf) = Inl OverflowError"
| "py_int (PFloat PosInf) = Inl OverflowError"
| "py_int v = Inl TypeError"

text \<open>\<open>float(value) != int(value)\<close>, the left operand evaluated first.\<close>

definition float_ne_int :: "pyval \<Rightarrow> error + bool" where
  "float_ne_int value =
     (case py_float value of
        Inl e \<Rightarrow> Inl e
      | Inr f \<Rightarrow> (case py_int value of
                    Inl e \<Rightarrow> Inl e
                  | Inr k \<Rightarrow> Inr (f \<noteq> Finite (of_int k))))"

text \<open>
  \<open>x == y\<close>: numbers (\<open>bool\<close>, \<open>int\<close>, \<open>float\<close>) are equal when their values are, so
  \<open>True\<close>, \<open>1\<close> and \<open>1.0\<close> are equal; everything else is compared structurally,
  objects by identity. Equal values have equal hashes, and every value here is
  hashable. \<open>value in enum_list\<close> compares with \<open>==\<close>.
\<close>

definition py_eq :: "pyval \<Rightarrow> pyval \<Rightarrow> bool" where
  "py_eq x y =
     (case (real_value x, real_value y) of
        (Some p, Some q) \<Rightarrow> p = q
      | (None, None) \<Rightarrow> x = y
      | _ \<Rightarrow> False)"

definition py_in :: "pyval \<Rightarrow> pyval list \<Rightarrow> bool" where
  "py_in x xs = list_ex (py_eq x) xs"

text \<open>\<open>s.split(sep)\<close> for a separator of one character.\<close>

fun split_on :: "char \<Rightarrow> string \<Rightarrow> string list" where
  "split_on sep [] = [[]]"
| "split_on sep (c # cs) =
     (if c = sep then [] # split_on sep cs
      else (case split_on sep cs of
              [] \<Rightarrow> [[c]]
            | p # ps \<Rightarrow> (c # p) # ps))"

text \<open>
  Two functions of the standard library are parameters of the model:
  \<open>strptime s fmt\<close> tells whether \<open>datetime.strptime(s, fmt)\<close> parses the string \<open>s\<close>
  (it raises \<open>ValueError\<close> otherwise), and \<open>py_str v\<close> is \<open>str(v)\<close> of a number.
\<close>

record pylib =
  strptime :: "string \<Rightarrow> string \<Rightarrow> bool"
  py_str :: "pyval \<Rightarrow> string"

section \<open>Python dictionaries\<close>

text \<open>
  A Python \<open>dict\<close> keeps its keys in insertion order: it is an association list
  with distinct keys. \<open>d[k] = v\<close> replaces the value in place when \<open>k\<close> is
  there and appends the pair otherwise; \<open>d.get(k, dflt)\<close> is \<open>dict_get\<close>. These three
  operations compare keys with HOL equality: they are for dictionaries whose keys are
  strings (\<open>ValidationError.all\<close>) or the numbers \<open>id(instance)\<close> (\<open>TypeChecker.values\<close>),
  where \<open>==\<close> is equality.
\<close>

type_synonym ('k, 'v) dict = "('k \<times> 'v) list"

definition dict_get :: "('k, 'v) dict \<Rightarrow> 'k \<Rightarrow> 'v \<Rightarrow> 'v" where
  "dict_get d k dflt = (case map_of d k of None \<Rightarrow> dflt | Some v \<Rightarrow> v)"

definition dict_setitem :: "('k, 'v) dict \<Rightarrow> 'k \<Rightarrow> 'v \<Rightarrow> ('k, 'v) dict" where
  "dict_setitem d k v = AList.update k v d"

definition dict_delitem :: "('k, 'v) dict \<Rightarrow> 'k \<Rightarrow> ('k, 'v) dict" where
  "dict_delitem d k = AList.delete k d"

text \<open>
  A dictionary whose keys are arbitrary objects, as the registry of a dispatcher is,
  finds a key with \<open>==\<close>: \<open>py_lookup d k\<close> is the value stored under the key equal to
  \<open>k\<close>, and \<open>d[k] = v\<close> keeps the key object that is already there.
\<close>

type_synonym 'v pydict = "(pyval \<times> 'v) list"

fun py_lookup :: "'v pydict \<Rightarrow> pyval \<Rightarrow> 'v option" where
  "py_lookup [] k = None"
| "py_lookup ((k', v) # d) k = (if py_eq k' k then Some v else py_lookup d k)"

definition pydict_get :: "'v pydict \<Rightarrow> pyval \<Rightarrow> 'v \<Rightarrow> 'v" where
  "pydict_get d k dflt = (case py_lookup d k of None \<Rightarrow> dflt | Some v \<Rightarrow> v)"

fun pydict_setitem :: "'v pydict \<Rightarrow> pyval \<Rightarrow> 'v \<Rightarrow> 'v pydict" where
  "pydict_setitem [] k v = [(k, v)]"
| "pydict_setitem ((k', v') # d) k v =
     (if py_eq k' k then (k', v) # d else (k', v') # pydict_setitem d k v)"

text \<open>
  Dictionaries are objects: two names can refer to the same one. The store maps the
  address of a dictionary object to its current contents.
\<close>

type_synonym addr = nat

type_synonym 'v store = "addr \<Rightarrow> 'v pydict"

section \<open>decorators.py: the Dispatcher\<close>

text \<open>
  A handler is called as \<open>function_to_call(*args, **kwargs)\<close>: it receives the list of
  positional arguments and the keyword arguments, and returns or raises. A
  \<open>Dispatcher\<close> object holds its default function and a reference to its registry
  dictionary (the attributes \<open>__doc__\<close> and \<open>__name__\<close> are copied strings and play no
  part in dispatching).
\<close>

type_synonym ('kw, 'r) handler = "pyval list \<Rightarrow> 'kw \<Rightarrow> error + 'r"

record ('kw, 'r) Dispatcher =
  default_function :: "('kw, 'r) handler"
  registry :: addr

text \<open>\<open>Dispatcher.__init__\<close>: \<open>a\<close> is the address of the freshly allocated \<open>{}\<close>.\<close>

definition Dispatcher_init ::
  "('kw, 'r) handler \<Rightarrow> addr \<Rightarrow> ('kw, 'r) handler store \<Rightarrow>
   ('kw, 'r) Dispatcher \<times> ('kw, 'r) handler store" where
  "Dispatcher_init default_fn a h =
     (\<lparr>default_function = default_fn, registry = a\<rparr>, h(a := []))"

text \<open>\<open>Dispatcher.__call__\<close>.\<close>

definition Dispatcher_call ::
  "('kw, 'r) Dispatcher \<Rightarrow> ('kw, 'r) handler store \<Rightarrow> pyval list \<Rightarrow> 'kw \<Rightarrow> error + 'r" where
  "Dispatcher_call self h args kwargs =
     (if args = [] then Inl ValueError
      else
        let key = hd args;
            function_to_call = pydict_get (h (registry self)) key (default_function self)
        in function_to_call args kwargs)"

text \<open>
  \<open>Dispatcher.register(key)(func)\<close>: the decorator stores \<open>func\<close> under \<open>key\<close> in the
  registry dictionary, in place, and returns \<open>func\<close> unchanged.
\<close>

definition register ::
  "('kw, 'r) Dispatcher \<Rightarrow> pyval \<Rightarrow> ('kw, 'r) handler \<Rightarrow> ('kw, 'r) handler store \<Rightarrow>
   ('kw, 'r) handler \<times> ('kw, 'r) handler store" where
  "register self key func h =
     (func, h(registry self := pydict_setitem (h (registry self)) key func))"

text \<open>
  \<open>types.MappingProxyType(d)\<close> is a new object that refers to \<open>d\<close>: every read goes to
  the dictionary as it is at the time of the read. It has no item assignment and no
  item deletion (\<open>TypeError\<close>), and none of the mutating methods of \<open>dict\<close>
  (\<open>AttributeError\<close>).
\<close>

datatype MappingProxyType = MappingProxyType addr

datatype 'v mutation =
    SetItem pyval 'v
  | DelItem pyval
  | Clear
  | Pop pyval
  | PopItem
  | SetDefault pyval 'v
  | Update "(pyval \<times> 'v) list"

fun proxy_getitem :: "MappingProxyType \<Rightarrow> 'v store \<Rightarrow> pyval \<Rightarrow> error + 'v" where
  "proxy_getitem (MappingProxyType a) h k =
     (case py_lookup (h a) k of None \<Rightarrow> Inl KeyError | Some v \<Rightarrow> Inr v)"

fun proxy_items :: "MappingProxyType \<Rightarrow> 'v store \<Rightarrow> (pyval \<times> 'v) list" where
  "proxy_items (MappingProxyType a) h = h a"

fun proxy_mutate :: "MappingProxyType \<Rightarrow> 'v mutation \<Rightarrow> 'v store \<Rightarrow> error \<times> 'v store" where
  "proxy_mutate view (SetItem k v) h = (TypeError, h)"
| "proxy_mutate view (DelItem k) h = (TypeError, h)"
| "proxy_mutate view m h = (AttributeError, h)"

text \<open>\<open>Dispatcher.get_registry\<close> and \<open>Dispatcher.get_function\<close>.\<close>

definition get_registry :: "('kw, 'r) Dispatcher \<Rightarrow> MappingProxyType" where
  "get_registry self = MappingProxyType (registry self)"

definition get_function ::
  "('kw, 'r) Dispatcher \<Rightarrow> ('kw, 'r) handler store \<Rightarrow> pyval \<Rightarrow> ('kw, 'r) handler" where
  "get_function self h key = pydict_get (h (registry self)) key (default_function self)"

text \<open>
  \<open>instantiate_dispatcher\<close>: the three handlers take \<open>*args\<close> only, so a keyword
  argument is a \<open>TypeError\<close>. The registry is allocated at address \<open>0\<close> of an empty
  store. The functions \<open>default\<close>, \<open>a\<close> and \<open>b\<close> are named \<open>handler_default\<close>,
  \<open>handler_a\<close> and \<open>handler_b\<close> here.
\<close>

type_synonym str_kwargs = "(string \<times> string) list"

definition handler_default :: "(str_kwargs, string) handler" where
  "handler_default args kwargs = (if kwargs = [] then Inr ''This is the default value'' else Inl TypeError)"

definition handler_a :: "(str_kwargs, string) handler" where
  "handler_a args kwargs =
     (if kwargs = [] then Inr ''This is the function when the first argument is \"a\"''
      else Inl TypeError)"

definition handler_b :: "(str_kwargs, string) handler" where
  "handler_b args kwargs =
     (if kwargs = [] then Inr ''This is the function when the first argument is \"b\"''
      else Inl TypeError)"

definition instantiate_dispatcher ::
  "(str_kwargs, string) Dispatcher \<times> (str_kwargs, string) handler store" where
  "instantiate_dispatcher =
     (let (d, h0) = Dispatcher_init handler_default 0 (\<lambda>_. []);
          (_, h1) = register d (PStr ''a'') handler_a h0;
          (_, h2) = register d (PStr ''b'') handler_b h1
      in (d, h2))"

section \<open>descriptors.py: ValidationError and the registry of errors\<close>

text \<open>
  An error message is an f-string: one constructor for each template of the module,
  carrying the values the template interpolates.
  \<^item> \<open>Mandatory a\<close>: \<open>Field {a} is mandatory. Ensure there are no missing values\<close>
  \<^item> \<open>NotStr a v\<close>: \<open>Field {a} is type of str. Invalid value: {v}\<close>
  \<^item> \<open>TooShort a n v\<close>: \<open>Field {a} must have at least {n} characters. Invalid value: {v}\<close>
  \<^item> \<open>TooLong a n v\<close>: \<open>Field {a} cannot have more than {n} characters. Invalid value: {v}\<close>
  \<^item> \<open>NotInteger a v\<close>: \<open>{a} is type of integer. Invalid value: {v}\<close>
  \<^item> \<open>IntOutOfRange a lo hi\<close>: \<open>{a} must be between {lo} and {hi}. Bottom and upper bounds inclusive\<close>
  \<^item> \<open>NotFloat a v\<close>: \<open>{a} must be a float. Invalid value: {v}\<close>
  \<^item> \<open>FloatOutOfRange a lo hi v\<close>: \<open>{a} must be between {lo} and {hi}. Bottom and upper bounds inclusive. Invalid value: {v}\<close>
  \<^item> \<open>TooManyDecimals a n v\<close>: \<open>{a} must have at most {n} decimal places. Invalid value: {v}\<close>
  \<^item> \<open>BadDate a fs v\<close>: \<open>{a} must match one of the formats: {', '.join(fs)}. Invalid value: {v}\<close>
  \<^item> \<open>BadEnum a xs v\<close>: \<open>Acceptable values for attribute {a} are {xs}. Invalid value: {v}\<close>
\<close>

datatype message =
    Mandatory pyval
  | NotStr pyval pyval
  | TooShort pyval int pyval
  | TooLong pyval int pyval
  | NotInteger pyval pyval
  | IntOutOfRange pyval pyval pyval
  | NotFloat pyval pyval
  | FloatOutOfRange pyval pyval pyval pyval
  | TooManyDecimals pyval int pyval
  | BadDate pyval "string list" pyval
  | BadEnum pyval "pyval list" pyval

record ValidationError =
  field_name :: pyval
  error_message :: message

definition ValidationError_init :: "pyval \<Rightarrow> message \<Rightarrow> ValidationError" where
  "ValidationError_init name msg = \<lparr>field_name = name, error_message = msg\<rparr>"

text \<open>
  A validator returns a pair: \<open>True, ""\<close> or \<open>False, ValidationError(...)\<close>. The second
  component, the empty string or an exception object, is what \<open>__set__\<close> appends to
  the registry.
\<close>

datatype payload = EmptyStr | Exc ValidationError

type_synonym verdict = "bool \<times> payload"

text \<open>
  \<open>ValidationError.all\<close> is a \<open>defaultdict(list)\<close>: \<open>all[k].append(x)\<close> creates the key
  with an empty list when it is missing.
\<close>

type_synonym errors = "(string, payload list) dict"

definition all_append :: "errors \<Rightarrow> string \<Rightarrow> payload \<Rightarrow> errors" where
  "all_append all k x = dict_setitem all k (dict_get all k [] @ [x])"

definition get_errors :: "errors \<Rightarrow> errors" where
  "get_errors all = all"

definition clear_errors :: "errors \<Rightarrow> errors" where
  "clear_errors all = []"

text \<open>
  \<open>json.dumps\<close> serialises a \<open>dict\<close> with string keys, a \<open>list\<close> and a \<open>str\<close>; any other
  object, an exception object among them, is a \<open>TypeError\<close> (\<open>Object of type
  ValidationError is not JSON serializable\<close>). The result is given as the JSON document
  that the returned text denotes; the layout of the text (\<open>indent=4\<close>) is not modelled.
\<close>

datatype json = JString string | JArray "json list" | JObject "(string \<times> json) list"

fun dumps_payload :: "payload \<Rightarrow> error + json" where
  "dumps_payload EmptyStr = Inr (JString [])"
| "dumps_payload (Exc e) = Inl TypeError"

fun dumps_list :: "payload list \<Rightarrow> error + json list" where
  "dumps_list [] = Inr []"
| "dumps_list (x # xs) =
     (case dumps_payload x of
        Inl e \<Rightarrow> Inl e
      | Inr j \<Rightarrow> (case dumps_list xs of Inl e \<Rightarrow> Inl e | Inr js \<Rightarrow> Inr (j # js)))"

fun dumps_items :: "errors \<Rightarrow> error + (string \<times> json) list" where
  "dumps_items [] = Inr []"
| "dumps_items ((k, xs) # kvs) =
     (case dumps_list xs of
        Inl e \<Rightarrow> Inl e
      | Inr js \<Rightarrow> (case dumps_items kvs of
                     Inl e \<Rightarrow> Inl e
                   | Inr rest \<Rightarrow> Inr ((k, JArray js) # rest)))"

definition json_dumps :: "errors \<Rightarrow> error + json" where
  "json_dumps obj = (case dumps_items obj of Inl e \<Rightarrow> Inl e | Inr kvs \<Rightarrow> Inr (JObject kvs))"

text \<open>\<open>ValidationError.to_json\<close>: \<open>json.dumps(cls.get_errors().copy(), indent=4)\<close>.\<close>

definition to_json :: "errors \<Rightarrow> error + json" where
  "to_json all = json_dumps (get_errors all)"

section \<open>descriptors.py: the validators\<close>

text \<open>
  \<open>TypeChecker.__set__\<close> always passes the same six keyword arguments. The lengths are
  \<open>None\<close> or an \<open>int\<close>, the bounds any object, the formats \<open>None\<close> or a list of
  strings, the allow-list \<open>None\<close> or a list.
\<close>

record kwargs =
  kw_min_value :: pyval
  kw_max_value :: pyval
  kw_min_length :: "int option"
  kw_max_length :: "int option"
  kw_acceptable_formats :: "string list option"
  kw_enum_list :: "pyval list option"

type_synonym validator = "(kwargs, verdict) handler"

text \<open>Truth value of \<open>min_length\<close> in \<open>if min_length and ...\<close>: \<open>None\<close> and \<open>0\<close> are false.\<close>

definition truthy :: "int option \<Rightarrow> bool" where
  "truthy n = (case n of None \<Rightarrow> False | Some k \<Rightarrow> k \<noteq> 0)"

definition failed :: "pyval \<Rightarrow> message \<Rightarrow> error + verdict" where
  "failed attr_name msg = Inr (False, Exc (ValidationError_init attr_name msg))"

definition passed :: "error + verdict" where
  "passed = Inr (True, EmptyStr)"

text \<open>The default function of the dispatcher: it raises \<open>KeyError\<close>.\<close>

fun validate_default :: validator where
  "validate_default [ty, value, attr_name] kw = Inl KeyError"
| "validate_default args kw = Inl TypeError"

fun validate_string :: validator where
  "validate_string [ty, value, attr_name] kw =
     (if value = PNone then passed
      else (case value of
              PStr s \<Rightarrow>
                if truthy (kw_min_length kw) \<and> int (length s) < the (kw_min_length kw)
                then failed attr_name (TooShort attr_name (the (kw_min_length kw)) value)
                else if truthy (kw_max_length kw) \<and> int (length s) > the (kw_max_length kw)
                then failed attr_name (TooLong attr_name (the (kw_max_length kw)) value)
                else passed
            | _ \<Rightarrow> failed attr_name (NotStr attr_name value)))"
| "validate_string args kw = Inl TypeError"

fun validate_integer :: validator where
  "validate_integer [ty, value, attr_name] kw =
     (if value = PNone then passed
      else if \<not> isinstance_Real value then failed attr_name (NotInteger attr_name value)
      else (case float_ne_int value of
              Inl e \<Rightarrow> Inl e
            | Inr ne \<Rightarrow>
                if ne then failed attr_name (NotInteger attr_name value)
                else (case chained_lt (kw_min_value kw) value (kw_max_value kw) of
                        Inl e \<Rightarrow> Inl e
                      | Inr ok \<Rightarrow>
                          if \<not> ok
                          then failed attr_name
                                 (IntOutOfRange attr_name (kw_min_value kw) (kw_max_value kw))
                          else passed)))"
| "validate_integer args kw = Inl TypeError"

fun validate_float :: "pylib \<Rightarrow> validator" where
  "validate_float lib [ty, value, attr_name] kw =
     (if value = PNone then passed
      else if \<not> isinstance_Real value then failed attr_name (NotFloat attr_name value)
      else (case chained_lt (kw_min_value kw) value (kw_max_value kw) of
              Inl e \<Rightarrow> Inl e
            | Inr ok \<Rightarrow>
                if \<not> ok
                then failed attr_name
                       (FloatOutOfRange attr_name (kw_min_value kw) (kw_max_value kw) value)
                else (case kw_max_length kw of
                        None \<Rightarrow> passed
                      | Some max_length \<Rightarrow>
                          let parts = split_on (CHR ''.'') (py_str lib value)
                          in if length parts > 1 \<and> int (length (parts ! 1)) > max_length
                             then failed attr_name (TooManyDecimals attr_name max_length value)
                             else passed)))"
| "validate_float lib args kw = Inl TypeError"

text \<open>
  The loop of \<open>validate_date\<close>: \<open>datetime.strptime(value, fmt)\<close> raises \<open>TypeError\<close>,
  which the loop does not catch, when \<open>value\<close> is no string.
\<close>

fun try_formats :: "pylib \<Rightarrow> pyval \<Rightarrow> string list \<Rightarrow> error + bool" where
  "try_formats lib value [] = Inr False"
| "try_formats lib value (fmt # fmts) =
     (case value of
        PStr s \<Rightarrow> if strptime lib s fmt then Inr True else try_formats lib value fmts
      | _ \<Rightarrow> Inl TypeError)"

definition isinstance_date :: "pyval \<Rightarrow> bool" where
  "isinstance_date value = (case value of PDate d \<Rightarrow> True | _ \<Rightarrow> False)"

fun validate_date :: "pylib \<Rightarrow> validator" where
  "validate_date lib [ty, value, attr_name] kw =
     (if value = PNone \<or> isinstance_date value then passed
      else
        let acceptable_formats =
              (case kw_acceptable_formats kw of
                 None \<Rightarrow> [''%Y%m%d'', ''%Y-%m-%d'']
               | Some fs \<Rightarrow> fs)
        in (case try_formats lib value acceptable_formats of
              Inl e \<Rightarrow> Inl e
            | Inr found \<Rightarrow>
                if found then passed
                else failed attr_name (BadDate attr_name acceptable_formats value)))"
| "validate_date lib args kw = Inl TypeError"

fun validate_enum :: validator where
  "validate_enum [ty, value, attr_name] kw =
     (if value = PNone then passed
      else (case kw_enum_list kw of
              None \<Rightarrow> Inl ValueError
            | Some enum_list \<Rightarrow>
                if \<not> py_in value enum_list
                then failed attr_name (BadEnum attr_name enum_list value)
                else passed))"
| "validate_enum args kw = Inl TypeError"

text \<open>
  The module creates the dispatcher \<open>validate\<close> (its registry at address \<open>0\<close>) and
  registers the five validators in this order: \<open>str\<close>, \<open>int\<close>, \<open>float\<close>, \<open>date\<close> and the
  string \<open>'enum'\<close>. \<open>module_store\<close> is the store once the module is loaded.
\<close>

definition validate :: "(kwargs, verdict) Dispatcher" where
  "validate = fst (Dispatcher_init validate_default 0 (\<lambda>_. []))"

definition module_store :: "pylib \<Rightarrow> validator store" where
  "module_store lib =
     (let h0 = snd (Dispatcher_init validate_default 0 (\<lambda>_. []));
          h1 = snd (register validate (PType T_str) validate_string h0);
          h2 = snd (register validate (PType T_int) validate_integer h1);
          h3 = snd (register validate (PType T_float) (validate_float lib) h2);
          h4 = snd (register validate (PType T_date) (validate_date lib) h3);
          h5 = snd (register validate (PStr ''enum'') validate_enum h4)
      in h5)"

section \<open>descriptors.py: TypeChecker\<close>

text \<open>
  An owner instance is known to a descriptor by \<open>id(instance)\<close>, a number, and by
  whether it supports weak references: an instance of an ordinary class does, and so
  does one of a class whose \<open>__slots__\<close> name \<open>__weakref__\<close>, as the module's \<open>Person\<close>
  does; for any other instance \<open>weakref.ref(instance, callback)\<close> raises \<open>TypeError\<close>.
  \<open>attr_name\<close> does not exist until \<open>__set_name__\<close> has run: reading it before is an
  \<open>AttributeError\<close>. The attribute \<open>values\<close> is the field \<open>values_dict\<close>.
\<close>

datatype owner = Owner (py_id: nat) (weak_referenceable: bool)

datatype weakref = Weakref nat

definition weakref_ref :: "owner \<Rightarrow> error + weakref" where
  "weakref_ref instance =
     (if weak_referenceable instance then Inr (Weakref (py_id instance)) else Inl TypeError)"

record TypeChecker =
  type :: pyval
  min_length :: "int option"
  max_length :: "int option"
  min_value :: pyval
  max_value :: pyval
  required :: bool
  log_missing_mandatory_values :: bool
  acceptable_date_formats :: "string list option"
  enum_list :: "pyval list option"
  values_dict :: "(nat, weakref \<times> pyval) dict"
  attr_name :: "string option"

text \<open>
  \<open>TypeChecker.__init__\<close>, its parameters in the order of the source. The defaults are
  \<open>None\<close> for the lengths, the formats and the allow-list, \<open>float('-inf')\<close> and
  \<open>float('inf')\<close> for the bounds and \<open>False\<close> for \<open>required\<close>.
\<close>

definition TypeChecker_init ::
  "pyval \<Rightarrow> int option \<Rightarrow> int option \<Rightarrow> pyval \<Rightarrow> pyval \<Rightarrow> bool \<Rightarrow>
   string list option \<Rightarrow> pyval list option \<Rightarrow> TypeChecker" where
  "TypeChecker_init ty min_len max_len min_val max_val req formats enums =
     \<lparr>type = ty,
      min_length = min_len,
      max_length = max_len,
      min_value = min_val,
      max_value = max_val,
      required = req,
      log_missing_mandatory_values = True,
      acceptable_date_formats = None,
      enum_list = enums,
      values_dict = [],
      attr_name = None\<rparr>"

definition set_name :: "TypeChecker \<Rightarrow> string \<Rightarrow> TypeChecker" where
  "set_name self name = self\<lparr>attr_name := Some name\<rparr>"

text \<open>
  \<open>TypeChecker.__get__\<close>: \<open>instance\<close> is \<open>None\<close> when the attribute is read through the
  class. A stored pair is a tuple of two components, which is always true in
  \<open>tuple_value[1] if tuple_value else None\<close>.
\<close>

datatype get_result = Descriptor TypeChecker | Value pyval

definition TypeChecker_get :: "TypeChecker \<Rightarrow> owner option \<Rightarrow> get_result" where
  "TypeChecker_get self instance =
     (case instance of
        None \<Rightarrow> Descriptor self
      | Some i \<Rightarrow>
          (case map_of (values_dict self) (py_id i) of
             None \<Rightarrow> Value PNone
           | Some tuple_value \<Rightarrow> Value (snd tuple_value)))"

text \<open>
  \<open>self.values[id(instance)] = weakref.ref(instance, self._finalise_object), value\<close>:
  the right-hand side is evaluated first, so nothing is stored when \<open>weakref.ref\<close>
  raises.
\<close>

definition store_value :: "TypeChecker \<Rightarrow> owner \<Rightarrow> pyval \<Rightarrow> error + TypeChecker" where
  "store_value self instance value =
     (case weakref_ref instance of
        Inl e \<Rightarrow> Inl e
      | Inr r \<Rightarrow>
          Inr (self\<lparr>values_dict := dict_setitem (values_dict self) (py_id instance) (r, value)\<rparr>))"

definition constraints :: "TypeChecker \<Rightarrow> kwargs" where
  "constraints self =
     \<lparr>kw_min_value = min_value self,
      kw_max_value = max_value self,
      kw_min_length = min_length self,
      kw_max_length = max_length self,
      kw_acceptable_formats = acceptable_date_formats self,
      kw_enum_list = enum_list self\<rparr>"

text \<open>
  The last statement of both branches of \<open>__set__\<close>: store the value and return, or
  leave with the exception of \<open>weakref.ref\<close>; the registry is as it is by then.
\<close>

definition store_and_return ::
  "TypeChecker \<Rightarrow> owner \<Rightarrow> pyval \<Rightarrow> errors \<Rightarrow> error option \<times> TypeChecker \<times> errors" where
  "store_and_return self instance value all =
     (case store_value self instance value of
        Inl e \<Rightarrow> (Some e, self, all)
      | Inr self' \<Rightarrow> (None, self', all))"

text \<open>
  \<open>TypeChecker.__set__\<close>. \<open>validate_fn\<close> is the module's callable \<open>validate\<close> as it is
  when the assignment runs. The result is the exception raised, if any, with the
  descriptor and \<open>ValidationError.all\<close> as the call leaves them.
\<close>

definition TypeChecker_set ::
  "validator \<Rightarrow> TypeChecker \<Rightarrow> owner \<Rightarrow> pyval \<Rightarrow> errors \<Rightarrow>
   error option \<times> TypeChecker \<times> errors" where
  "TypeChecker_set validate_fn self instance value all =
     (if value = PNone \<and> required self then
        (if log_missing_mandatory_values self then
           let self1 = self\<lparr>log_missing_mandatory_values := False\<rparr>
           in (case attr_name self1 of
                 None \<Rightarrow> (Some AttributeError, self1, all)
               | Some name \<Rightarrow>
                   let error = ValidationError_init (PStr name) (Mandatory (PStr name))
                   in store_and_return self1 instance value (all_append all name (Exc error)))
         else store_and_return self instance value all)
      else
        (case attr_name self of
           None \<Rightarrow> (Some AttributeError, self, all)
         | Some name \<Rightarrow>
             (case validate_fn [type self, value, PStr name] (constraints self) of
                Inl e \<Rightarrow> (Some e, self, all)
              | Inr (is_ok, error) \<Rightarrow>
                  store_and_return self instance value
                    (if \<not> is_ok then all_append all name error else all))))"

text \<open>\<open>TypeChecker._finalise_object\<close>, the callback of the weak reference.\<close>

definition finalise_object :: "TypeChecker \<Rightarrow> weakref \<Rightarrow> error option \<times> TypeChecker" where
  "finalise_object self instance_weakref =
     (let reverse_lookup = map fst (filter (\<lambda>(key, value). fst value = instance_weakref) (values_dict self))
      in (case reverse_lookup of
            [] \<Rightarrow> (Some IndexError, self)
          | key # rest \<Rightarrow> (None, self\<lparr>values_dict := dict_delitem (values_dict self) key\<rparr>)))"

section \<open>Runs of a program that uses the descriptors\<close>

text \<open>
  The state of a run: the class attribute \<open>ValidationError.all\<close>, shared by all
  descriptors, and the descriptor objects. A step assigns a value to a field of an
  instance (an exception of the assignment is caught by the caller and the run goes
  on), calls \<open>ValidationError.clear_errors()\<close>, or is the collection of an instance
  that a descriptor holds a reference to (an exception in the callback is ignored by
  the interpreter).
\<close>

record world =
  all_errors :: errors
  checkers :: "nat \<Rightarrow> TypeChecker"

datatype step = Assign nat owner pyval | ClearErrors | Collected nat nat

fun exec :: "validator \<Rightarrow> step \<Rightarrow> world \<Rightarrow> world" where
  "exec validate_fn (Assign d i x) w =
     (case TypeChecker_set validate_fn (checkers w d) i x (all_errors w) of
        (outcome, self', all') \<Rightarrow> w\<lparr>all_errors := all', checkers := (checkers w)(d := self')\<rparr>)"
| "exec validate_fn ClearErrors w = w\<lparr>all_errors := clear_errors (all_errors w)\<rparr>"
| "exec validate_fn (Collected d i) w =
     w\<lparr>checkers := (checkers w)(d := snd (finalise_object (checkers w d) (Weakref i)))\<rparr>"

fun run :: "validator \<Rightarrow> step list \<Rightarrow> world \<Rightarrow> world" where
  "run validate_fn [] w = w"
| "run validate_fn (s # ss) w = run validate_fn ss (exec validate_fn s w)"

section \<open>The module's demonstration\<close>

text \<open>
  The closed examples below run the descriptors of the class \<open>Person\<close> of the module's
  \<open>__main__\<close> block. \<open>demo_lib\<close> is the standard library on the strings of that block:
  \<open>strptime\<close> parses \<open>'19950727'\<close> and \<open>'20000101'\<close> with \<open>'%Y%m%d'\<close> and \<open>'2000-05-30'\<close>
  with \<open>'%Y-%m-%d'\<close>, and neither \<open>'2000/05/30'\<close> nor \<open>'1.1.2000'\<close> with one of these two
  formats; \<open>str(100.5)\<close> is \<open>'100.5'\<close>. No example depends on it at any other argument,
  and every general theorem holds for all libraries.
\<close>

definition demo_lib :: pylib where
  "demo_lib =
     \<lparr>strptime = (\<lambda>s fmt. (s, fmt) \<in> set [(''19950727'', ''%Y%m%d''),
                                            (''20000101'', ''%Y%m%d''),
                                            (''2000-05-30'', ''%Y-%m-%d'')]),
      py_str = (\<lambda>v. if v = PFloat (Finite (201 / 2)) then ''100.5'' else [])\<rparr>"

definition demo_validate :: validator where
  "demo_validate = Dispatcher_call validate (module_store demo_lib)"

text \<open>
  \<open>first_name = TypeChecker(str, min_length=1, max_length=6, required=True)\<close>,
  \<open>last_name = TypeChecker(str, min_length=3, max_length=4, required=True)\<close>,
  \<open>age = TypeChecker(int, min_value=0, max_value=100, required=True)\<close> and
  \<open>salary = TypeChecker(float, min_value=0, max_value=100_000, max_length=2)\<close>, each
  followed by the \<open>__set_name__\<close> of the class body.
\<close>

definition first_name :: TypeChecker where
  "first_name =
     set_name (TypeChecker_init (PType T_str) (Some 1) (Some 6) (PFloat NegInf) (PFloat PosInf)
                 True None None) ''first_name''"

definition last_name :: TypeChecker where
  "last_name =
     set_name (TypeChecker_init (PType T_str) (Some 3) (Some 4) (PFloat NegInf) (PFloat PosInf)
                 True None None) ''last_name''"

definition age :: TypeChecker where
  "age =
     set_name (TypeChecker_init (PType T_int) None None (PInt 0) (PInt 100) True None None) ''age''"

definition salary :: TypeChecker where
  "salary =
     set_name (TypeChecker_init (PType T_float) None (Some 2) (PInt 0) (PInt 100000) False None None)
       ''salary''"

text \<open>\<open>dob = TypeChecker(date, required=True)\<close> of the same class.\<close>

definition dob :: TypeChecker where
  "dob =
     set_name (TypeChecker_init (PType T_date) None None (PFloat NegInf) (PFloat PosInf)
                 True None None) ''dob''"

text \<open>
  The instances \<open>p1\<close> and \<open>p2\<close> of \<open>Person\<close>, which support weak references, and an
  instance \<open>slotted\<close> of a class with \<open>__slots__ = ()\<close>, which does not.
\<close>

definition p1 :: owner where
  "p1 = Owner 1 True"

definition p2 :: owner where
  "p2 = Owner 2 True"

definition slotted :: owner where
  "slotted = Owner 3 False"

text \<open>
  Three declarations that are not in the demonstration: the optional text field
  \<open>nickname = TypeChecker(str)\<close>, the integer field
  \<open>quantity = TypeChecker(int, min_value=0, max_value=float('inf'))\<close>, and
  \<open>tags = TypeChecker(list)\<close>, whose kind \<open>list\<close> (the class \<open>T_other 0\<close>) has no
  validator.
\<close>

definition tags :: TypeChecker where
  "tags =
     set_name (TypeChecker_init (PType (T_other 0)) None None (PFloat NegInf) (PFloat PosInf)
                 False None None) ''tags''"

definition nickname :: TypeChecker where
  "nickname =
     set_name (TypeChecker_init (PType T_str) None None (PFloat NegInf) (PFloat PosInf)
                 False None None) ''nickname''"

definition quantity :: TypeChecker where
  "quantity =
     set_name (TypeChecker_init (PType T_int) None None (PInt 0) (PFloat PosInf)
                 False None None) ''quantity''"

text \<open>The world in which every descriptor is \<open>last_name\<close> and no error is recorded.\<close>

definition demo_world :: world where
  "demo_world = \<lparr>all_errors = [], checkers = (\<lambda>d. last_name)\<rparr>"

section \<open>Facts about equality and dictionaries\<close>

lemma py_eq_refl: "py_eq x x"
  by (cases "real_value x") (simp_all add: py_eq_def)

lemma py_eq_sym: "py_eq x y \<Longrightarrow> py_eq y x"
  by (auto simp: py_eq_def split: option.splits)



lemma py_lookup_None: "py_lookup d k = None \<longleftrightarrow> (\<forall>k' v. (k', v) \<in> set d \<longrightarrow> \<not> py_eq k' k)"
proof (induction d)
  case Nil
  then show ?case by simp
next
  case (Cons p d)
  obtain k0 v0 where p: "p = (k0, v0)" by (cases p)
  show ?case
  proof (cases "py_eq k0 k")
    case True
    with p show ?thesis by auto
  next
    case False
    with p Cons.IH show ?thesis by auto
  qed
qed

lemma py_lookup_setitem_same: "py_lookup (pydict_setitem d k v) k = Some v"
  by (induction d) (auto simp: py_eq_refl)


lemma map_of_dict_setitem: "map_of (dict_setitem d k v) = (map_of d)(k \<mapsto> v)"
  by (simp add: dict_setitem_def update_conv')

lemma dict_get_setitem:
  "dict_get (dict_setitem d k v) k' dflt = (if k' = k then v else dict_get d k' dflt)"
  by (simp add: dict_get_def map_of_dict_setitem)

lemma dict_get_all_append:
  "dict_get (all_append all k x) k' [] =
     (if k' = k then dict_get all k [] @ [x] else dict_get all k' [])"
  by (simp add: all_append_def dict_get_setitem)

lemma all_append_mem: "\<exists>xs. (k, xs @ [x]) \<in> set (all_append all k x)"
proof -
  have "map_of (all_append all k x) k = Some (dict_get all k [] @ [x])"
    by (simp add: all_append_def map_of_dict_setitem)
  then have "(k, dict_get all k [] @ [x]) \<in> set (all_append all k x)"
    by (rule map_of_SomeD)
  then show ?thesis by blast
qed

section \<open>The dispatcher\<close>

lemma instantiate_dispatcher_registry:
  "snd instantiate_dispatcher (registry (fst instantiate_dispatcher))
     = [(PStr ''a'', handler_a), (PStr ''b'', handler_b)]"
  "default_function (fst instantiate_dispatcher) = handler_default"
  by (simp_all add: instantiate_dispatcher_def Dispatcher_init_def register_def py_eq_def)



text \<open>
  Claim C9. The view that \<open>get_registry\<close> returns reads the registry dictionary itself:
  after a registration made once the view exists, the view has the new handler under
  its key and its items are those of the dictionary with that pair stored. Every
  attempt to change the dictionary through the view raises and leaves the store as
  it is.
\<close>

theorem get_registry_live_view:
  "proxy_getitem (get_registry self) (snd (register self key func h)) key = Inr func
   \<and> proxy_items (get_registry self) (snd (register self key func h))
       = pydict_setitem (proxy_items (get_registry self) h) key func
   \<and> snd (proxy_mutate (get_registry self) m h) = h
   \<and> (fst (proxy_mutate (get_registry self) m h) = TypeError
        \<or> fst (proxy_mutate (get_registry self) m h) = AttributeError)"
  by (cases m) (simp_all add: get_registry_def register_def py_lookup_setitem_same)

theorem get_registry_live_view_witness:
  "proxy_getitem (get_registry (fst instantiate_dispatcher)) (snd instantiate_dispatcher) (PStr ''c'')
     = Inl KeyError
   \<and> proxy_getitem (get_registry (fst instantiate_dispatcher))
        (snd (register (fst instantiate_dispatcher) (PStr ''c'') handler_b (snd instantiate_dispatcher)))
        (PStr ''c'')
     = Inr handler_b
   \<and> proxy_mutate (get_registry (fst instantiate_dispatcher)) (SetItem (PStr ''c'') handler_b)
        (snd instantiate_dispatcher)
     = (TypeError, snd instantiate_dispatcher)"
  using get_registry_live_view [where self = "fst instantiate_dispatcher" and key = "PStr ''c''"
      and func = handler_b and h = "snd instantiate_dispatcher"
      and m = "SetItem (PStr ''c'') handler_b"]
  by (simp add: instantiate_dispatcher_registry get_registry_def py_eq_def)

section \<open>The registry of errors as JSON\<close>

lemma dumps_list_Exc: "Exc e \<in> set xs \<Longrightarrow> dumps_list xs = Inl TypeError"
proof (induction xs)
  case Nil
  then show ?case by simp
next
  case (Cons x xs)
  show ?case
  proof (cases x)
    case EmptyStr
    with Cons show ?thesis by (auto split: sum.splits)
  next
    case (Exc e')
    then show ?thesis by simp
  qed
qed

lemma dumps_list_error: "dumps_list xs = Inl err \<Longrightarrow> err = TypeError"
proof (induction xs)
  case Nil
  then show ?case by simp
next
  case (Cons x xs)
  then show ?case by (cases x) (auto split: sum.splits)
qed

lemma dumps_items_Exc:
  "(k, xs) \<in> set all \<Longrightarrow> Exc e \<in> set xs \<Longrightarrow> dumps_items all = Inl TypeError"
proof (induction all rule: dumps_items.induct)
  case 1
  then show ?case by simp
next
  case (2 k' ys kvs)
  show ?case
  proof (cases "dumps_list ys")
    case (Inl err)
    with dumps_list_error show ?thesis by fastforce
  next
    case (Inr js)
    with 2 dumps_list_Exc show ?thesis
      by (auto split: sum.splits)
  qed
qed

lemma to_json_all_append_Exc: "to_json (all_append all k (Exc e)) = Inl TypeError"
proof -
  obtain xs where "(k, xs @ [Exc e]) \<in> set (all_append all k (Exc e))"
    using all_append_mem by blast
  then have "dumps_items (all_append all k (Exc e)) = Inl TypeError"
    by (rule dumps_items_Exc [where e = e]) simp
  then show ?thesis by (simp add: to_json_def get_errors_def json_dumps_def)
qed

lemma validate_registry: "registry validate = 0"
  by (simp add: validate_def Dispatcher_init_def)

lemma validate_default_function: "default_function validate = validate_default"
  by (simp add: validate_def Dispatcher_init_def)

lemma module_store_0:
  "module_store lib 0 =
     [(PType T_str, validate_string), (PType T_int, validate_integer),
      (PType T_float, validate_float lib), (PType T_date, validate_date lib),
      (PStr ''enum'', validate_enum)]"
  by (simp add: module_store_def Let_def register_def Dispatcher_init_def validate_registry
      py_eq_def)

lemma validate_str:
  "Dispatcher_call validate (module_store lib) (PType T_str # rest) kw
     = validate_string (PType T_str # rest) kw"
  by (simp add: Dispatcher_call_def validate_registry module_store_0 pydict_get_def py_eq_def)

lemma validate_int:
  "Dispatcher_call validate (module_store lib) (PType T_int # rest) kw
     = validate_integer (PType T_int # rest) kw"
  by (simp add: Dispatcher_call_def validate_registry module_store_0 pydict_get_def py_eq_def)

lemma validate_dat:
  "Dispatcher_call validate (module_store lib) (PType T_date # rest) kw
     = validate_date lib (PType T_date # rest) kw"
  by (simp add: Dispatcher_call_def validate_registry module_store_0 pydict_get_def py_eq_def)

lemma store_value_p1:
  "store_value self p1 v = Inr (self\<lparr>values_dict := dict_setitem (values_dict self) 1 (Weakref 1, v)\<rparr>)"
  by (simp add: store_value_def weakref_ref_def p1_def)

lemma store_value_p2:
  "store_value self p2 v = Inr (self\<lparr>values_dict := dict_setitem (values_dict self) 2 (Weakref 2, v)\<rparr>)"
  by (simp add: store_value_def weakref_ref_def p2_def)

text \<open>
  Claim C1. The claim says that \<open>to_json()\<close> returns a text once an error is recorded.
  The code appends the exception object itself, not its message, and \<open>json.dumps\<close>
  cannot serialise it: assigning \<open>'Ioannis'\<close> to \<open>first_name\<close> (at most 6 characters)
  records one error, and \<open>to_json()\<close> then raises \<open>TypeError\<close>. It does so whenever
  the last recorded entry is an exception object.
\<close>

theorem to_json_raises_after_recorded_error:
  "TypeChecker_set (Dispatcher_call validate (module_store lib)) first_name p1 (PStr ''Ioannis'') []
     = (None, first_name\<lparr>values_dict := [(1, Weakref 1, PStr ''Ioannis'')]\<rparr>,
        [(''first_name'', [Exc (ValidationError_init (PStr ''first_name'')
                                 (TooLong (PStr ''first_name'') 6 (PStr ''Ioannis'')))])])
   \<and> to_json [(''first_name'', [Exc (ValidationError_init (PStr ''first_name'')
                                 (TooLong (PStr ''first_name'') 6 (PStr ''Ioannis'')))])]
       = Inl TypeError
   \<and> to_json (all_append all name (Exc e)) = Inl TypeError"
proof (intro conjI)
  show "TypeChecker_set (Dispatcher_call validate (module_store lib)) first_name p1 (PStr ''Ioannis'') []
     = (None, first_name\<lparr>values_dict := [(1, Weakref 1, PStr ''Ioannis'')]\<rparr>,
        [(''first_name'', [Exc (ValidationError_init (PStr ''first_name'')
                                 (TooLong (PStr ''first_name'') 6 (PStr ''Ioannis'')))])])"
    by (simp add: TypeChecker_set_def store_and_return_def store_value_p1 first_name_def
      set_name_def TypeChecker_init_def validate_str constraints_def truthy_def failed_def
      passed_def all_append_def dict_get_def dict_setitem_def)
  show "to_json [(''first_name'', [Exc (ValidationError_init (PStr ''first_name'')
                                 (TooLong (PStr ''first_name'') 6 (PStr ''Ioannis'')))])]
       = Inl TypeError"
    by (simp add: to_json_def get_errors_def json_dumps_def)
  show "to_json (all_append all name (Exc e)) = Inl TypeError"
    by (rule to_json_all_append_Exc)
qed

section \<open>The date formats of a declaration\<close>

text \<open>
  Claim C2. The claim says that a date field constructed with a list of formats
  validates against that list. \<open>__init__\<close> sets \<open>self.acceptable_date_formats\<close> to
  \<open>None\<close> whatever it is given: the declaration is the one constructed without a
  list, \<open>validate_date\<close> receives \<open>acceptable_formats=None\<close>, and a textual value is
  tried against the two default formats.
\<close>

theorem acceptable_date_formats_dropped:
  "TypeChecker_init ty min_len max_len min_val max_val req (Some fs) enums
     = TypeChecker_init ty min_len max_len min_val max_val req None enums
   \<and> kw_acceptable_formats
        (constraints (set_name (TypeChecker_init ty min_len max_len min_val max_val req (Some fs) enums) name))
       = None
   \<and> validate_date lib [ty, PStr s, attr]
        (constraints (set_name (TypeChecker_init ty min_len max_len min_val max_val req (Some fs) enums) name))
       = (case try_formats lib (PStr s) [''%Y%m%d'', ''%Y-%m-%d''] of
            Inl err \<Rightarrow> Inl err
          | Inr found \<Rightarrow>
              if found then passed
              else failed attr (BadDate attr [''%Y%m%d'', ''%Y-%m-%d''] (PStr s)))"
  by (simp add: TypeChecker_init_def constraints_def set_name_def isinstance_date_def)

section \<open>Reading and writing a field\<close>

lemma get_store_value:
  "store_value self i v = Inr self' \<Longrightarrow> TypeChecker_get self' (Some i) = Value v"
  by (auto simp: TypeChecker_get_def store_value_def map_of_dict_setitem split: sum.splits)

lemma store_and_return_None:
  "store_and_return self i v all = (None, self', all') \<Longrightarrow>
     store_value self i v = Inr self' \<and> all' = all"
  by (auto simp: store_and_return_def split: sum.splits)

lemma TypeChecker_set_returns:
  "TypeChecker_set validate_fn self i v all = (None, self', all') \<Longrightarrow>
     \<exists>base. store_value base i v = Inr self'"
  by (auto simp: TypeChecker_set_def Let_def
      split: if_splits option.splits sum.splits prod.splits dest: store_and_return_None)

text \<open>
  Claim C3, as amended. Reading a field through an instance that has no stored entry
  returns \<open>None\<close>, and so does reading after an assignment of \<open>None\<close> that returned:
  the two reads cannot be told apart.
\<close>

theorem absent_read_is_None:
  "(map_of (values_dict self) (py_id i) = None \<longrightarrow> TypeChecker_get self (Some i) = Value PNone)
   \<and> (TypeChecker_set validate_fn self i PNone all = (None, self', all') \<longrightarrow>
        TypeChecker_get self' (Some i) = Value PNone)"
proof (intro conjI impI)
  assume "map_of (values_dict self) (py_id i) = None"
  then show "TypeChecker_get self (Some i) = Value PNone"
    by (simp add: TypeChecker_get_def)
next
  assume "TypeChecker_set validate_fn self i PNone all = (None, self', all')"
  then show "TypeChecker_get self' (Some i) = Value PNone"
    using TypeChecker_set_returns get_store_value by blast
qed

lemma nickname_None:
  "TypeChecker_set demo_validate nickname p1 PNone []
     = (None, nickname\<lparr>values_dict := [(1, Weakref 1, PNone)]\<rparr>, [])"
  by (simp add: TypeChecker_set_def store_and_return_def store_value_p1 demo_validate_def
      nickname_def set_name_def TypeChecker_init_def validate_str passed_def dict_setitem_def)

theorem absent_read_is_None_witness:
  "map_of (values_dict nickname) (py_id p1) = None
   \<and> TypeChecker_get nickname (Some p1) = Value PNone
   \<and> TypeChecker_set demo_validate nickname p1 PNone []
       = (None, nickname\<lparr>values_dict := [(1, Weakref 1, PNone)]\<rparr>, [])
   \<and> TypeChecker_get (nickname\<lparr>values_dict := [(1, Weakref 1, PNone)]\<rparr>) (Some p1) = Value PNone"
proof -
  have e: "map_of (values_dict nickname) (py_id p1) = None"
    by (simp add: nickname_def set_name_def TypeChecker_init_def)
  from nickname_None e absent_read_is_None [where self = nickname and i = p1
      and validate_fn = demo_validate and all = "[]"
      and self' = "nickname\<lparr>values_dict := [(1, Weakref 1, PNone)]\<rparr>" and all' = "[]"]
  show ?thesis by simp
qed

text \<open>
  Claim C3 as stated fails: the optional text field \<open>nickname\<close> accepts \<open>None\<close> for the
  instance \<open>p1\<close>, and the read after that assignment equals the read before it.
\<close>

theorem absent_marker_counterexample:
  "fst (TypeChecker_set demo_validate nickname p1 PNone []) = None
   \<and> TypeChecker_get nickname (Some p1)
       = TypeChecker_get (fst (snd (TypeChecker_set demo_validate nickname p1 PNone []))) (Some p1)"
  by (simp add: nickname_None) (simp add: TypeChecker_get_def nickname_def set_name_def
      TypeChecker_init_def p1_def)

text \<open>
  Claim C7. When the declared kind equals no key of the registry of \<open>validate\<close>, an
  assignment that reaches validation (every value but \<open>None\<close> on a required field)
  raises \<open>KeyError\<close>; the registry of errors and the descriptor, its stored values
  included, are as before.
\<close>

theorem unregistered_kind_raises_KeyError:
  assumes "\<forall>k f. (k, f) \<in> set (h (registry validate)) \<longrightarrow> \<not> py_eq (type self) k"
    and "attr_name self = Some name"
    and "\<not> (v = PNone \<and> required self)"
  shows "TypeChecker_set (Dispatcher_call validate h) self i v all = (Some KeyError, self, all)"
proof -
  from assms(1) have "py_lookup (h (registry validate)) (type self) = None"
    using py_lookup_None py_eq_sym by blast
  then have "Dispatcher_call validate h [type self, v, PStr name] (constraints self) = Inl KeyError"
    by (simp add: Dispatcher_call_def pydict_get_def validate_default_function)
  with assms(2,3) show ?thesis
    by (auto simp: TypeChecker_set_def)
qed

theorem unregistered_kind_raises_KeyError_witness:
  "map fst (module_store demo_lib (registry validate))
     = [PType T_str, PType T_int, PType T_float, PType T_date, PStr ''enum'']
   \<and> \<not> list_ex (py_eq (type tags))
            [PType T_str, PType T_int, PType T_float, PType T_date, PStr ''enum'']
   \<and> attr_name tags = Some ''tags''
   \<and> TypeChecker_set demo_validate tags p1 (PStr ''Joe'') [] = (Some KeyError, tags, [])"
proof -
  have t: "type tags = PType (T_other 0)" and n: "attr_name tags = Some ''tags''"
    by (simp_all add: tags_def set_name_def TypeChecker_init_def)
  have k: "map fst (module_store demo_lib (registry validate))
     = [PType T_str, PType T_int, PType T_float, PType T_date, PStr ''enum'']"
    by (simp add: validate_registry module_store_0)
  have e: "\<not> list_ex (py_eq (type tags))
            [PType T_str, PType T_int, PType T_float, PType T_date, PStr ''enum'']"
    by (simp add: t py_eq_def)
  have r: "\<forall>k f. (k, f) \<in> set (module_store demo_lib (registry validate)) \<longrightarrow> \<not> py_eq (type tags) k"
    by (auto simp: validate_registry module_store_0 t py_eq_def)
  from r n unregistered_kind_raises_KeyError [where h = "module_store demo_lib" and self = tags
      and name = "''tags''" and v = "PStr ''Joe''" and i = p1 and all = "[]"]
  have "TypeChecker_set demo_validate tags p1 (PStr ''Joe'') [] = (Some KeyError, tags, [])"
    by (simp add: demo_validate_def)
  with k e n show ?thesis by blast
qed

text \<open>
  When the registered validator returns a failure, the assignment appends the error
  to the registry and goes on to store the value.
\<close>

lemma validation_failure_recorded:
  assumes "py_lookup (h (registry validate)) (type self) = Some func"
    and "func [type self, v, PStr name] (constraints self) = Inr (False, err)"
    and "attr_name self = Some name"
    and "\<not> (v = PNone \<and> required self)"
  shows "TypeChecker_set (Dispatcher_call validate h) self i v all
           = store_and_return self i v (all_append all name err)"
proof -
  have "Dispatcher_call validate h [type self, v, PStr name] (constraints self) = Inr (False, err)"
    using assms(1,2) by (simp add: Dispatcher_call_def pydict_get_def)
  with assms(3,4) show ?thesis
    by (auto simp: TypeChecker_set_def)
qed

text \<open>
  For an owner without support for weak references the error is recorded first, then
  \<open>weakref.ref\<close> raises \<open>TypeError\<close> and the value is not stored.
\<close>

lemma write_raises_without_weakref:
  "TypeChecker_set (Dispatcher_call validate (module_store lib)) first_name slotted
     (PStr ''Ioannis'') []
     = (Some TypeError, first_name,
        [(''first_name'', [Exc (ValidationError_init (PStr ''first_name'')
                                 (TooLong (PStr ''first_name'') 6 (PStr ''Ioannis'')))])])"
  by (simp add: TypeChecker_set_def store_and_return_def store_value_def weakref_ref_def
      slotted_def first_name_def set_name_def TypeChecker_init_def validate_str constraints_def
      truthy_def failed_def passed_def all_append_def dict_get_def dict_setitem_def)

text \<open>
  Claim C8. The claim says that no candidate value makes the assignment raise: an
  invalid value is recorded and stored. \<open>validate_date\<close> catches \<open>ValueError\<close> only, and
  \<open>datetime.strptime\<close> raises \<open>TypeError\<close> on a value that is no string: assigning
  the number \<open>19950727\<close> to the date field \<open>dob\<close> raises \<open>TypeError\<close>, records
  nothing and stores nothing, whereas the validator of text fields returns the
  type-mismatch error for the same value.
\<close>

theorem date_write_raises_on_non_string:
  "TypeChecker_set (Dispatcher_call validate (module_store lib)) dob p1 (PInt 19950727) []
     = (Some TypeError, dob, [])
   \<and> TypeChecker_get dob (Some p1) = Value PNone
   \<and> validate_string [PType T_str, PInt 19950727, PStr ''first_name''] (constraints first_name)
       = failed (PStr ''first_name'') (NotStr (PStr ''first_name'') (PInt 19950727))"
  by (simp add: TypeChecker_set_def dob_def set_name_def TypeChecker_init_def validate_dat
      constraints_def isinstance_date_def TypeChecker_get_def)

section \<open>The one-shot flag of a required field\<close>

lemma TypeChecker_set_fields:
  assumes "TypeChecker_set validate_fn self i v all = (outcome, self', all')"
  shows "required self' = required self"
    and "attr_name self' = attr_name self"
    and "log_missing_mandatory_values self'
           = (log_missing_mandatory_values self \<and> \<not> (v = PNone \<and> required self))"
  using assms
  by (auto simp: TypeChecker_set_def Let_def store_and_return_def store_value_def
      split: if_splits option.splits sum.splits prod.splits)

lemma finalise_object_fields:
  "required (snd (finalise_object self r)) = required self"
  "attr_name (snd (finalise_object self r)) = attr_name self"
  "log_missing_mandatory_values (snd (finalise_object self r)) = log_missing_mandatory_values self"
  by (simp_all add: finalise_object_def Let_def split: list.splits)

lemma store_and_return_errors: "snd (snd (store_and_return self i v all)) = all"
  by (simp add: store_and_return_def split: sum.splits)

lemma null_write_silent:
  "required self \<Longrightarrow> \<not> log_missing_mandatory_values self \<Longrightarrow>
     snd (snd (TypeChecker_set validate_fn self i PNone all)) = all"
  by (simp add: TypeChecker_set_def store_and_return_errors)

lemma null_write_first:
  "required self \<Longrightarrow> log_missing_mandatory_values self \<Longrightarrow> attr_name self = Some name \<Longrightarrow>
     snd (snd (TypeChecker_set validate_fn self i PNone all))
       = all_append all name (Exc (ValidationError_init (PStr name) (Mandatory (PStr name))))"
  by (simp add: TypeChecker_set_def Let_def store_and_return_errors)

lemma exec_Assign:
  "all_errors (exec v (Assign d i x) w)
     = snd (snd (TypeChecker_set v (checkers w d) i x (all_errors w)))"
  "checkers (exec v (Assign d i x) w) d = fst (snd (TypeChecker_set v (checkers w d) i x (all_errors w)))"
  "d' \<noteq> d \<Longrightarrow> checkers (exec v (Assign d i x) w) d' = checkers w d'"
  by (simp_all split: prod.splits)

lemma exec_Assign_fields:
  "required (checkers (exec v (Assign d i x) w) d) = required (checkers w d)"
  "attr_name (checkers (exec v (Assign d i x) w) d) = attr_name (checkers w d)"
  "log_missing_mandatory_values (checkers (exec v (Assign d i x) w) d)
     = (log_missing_mandatory_values (checkers w d) \<and> \<not> (x = PNone \<and> required (checkers w d)))"
proof -
  obtain outcome self' all' where
    r: "TypeChecker_set v (checkers w d) i x (all_errors w) = (outcome, self', all')"
    by (metis prod_cases3)
  from TypeChecker_set_fields [OF r]
  show "required (checkers (exec v (Assign d i x) w) d) = required (checkers w d)"
    "attr_name (checkers (exec v (Assign d i x) w) d) = attr_name (checkers w d)"
    "log_missing_mandatory_values (checkers (exec v (Assign d i x) w) d)
     = (log_missing_mandatory_values (checkers w d) \<and> \<not> (x = PNone \<and> required (checkers w d)))"
    by (simp_all add: exec_Assign(2) r del: exec.simps)
qed

lemma exec_silent:
  assumes "required (checkers w d)" and "\<not> log_missing_mandatory_values (checkers w d)"
  shows "required (checkers (exec v s w) d) \<and> \<not> log_missing_mandatory_values (checkers (exec v s w) d)"
proof (cases s)
  case (Assign d' i x)
  show ?thesis
  proof (cases "d' = d")
    case True
    with assms Assign show ?thesis by (simp add: exec_Assign_fields del: exec.simps)
  next
    case False
    with assms Assign show ?thesis by (simp add: exec_Assign(3) del: exec.simps)
  qed
next
  case ClearErrors
  with assms show ?thesis by simp
next
  case (Collected d' i)
  with assms show ?thesis by (auto simp: finalise_object_fields)
qed

lemma run_silent:
  "required (checkers w d) \<Longrightarrow> \<not> log_missing_mandatory_values (checkers w d) \<Longrightarrow>
     required (checkers (run v ss w) d) \<and> \<not> log_missing_mandatory_values (checkers (run v ss w) d)"
proof (induction ss arbitrary: w)
  case Nil
  then show ?case by simp
next
  case (Cons s ss)
  then show ?case using exec_silent by simp
qed

lemma exec_null_write_silent:
  "required (checkers w d) \<Longrightarrow> \<not> log_missing_mandatory_values (checkers w d) \<Longrightarrow>
     all_errors (exec v (Assign d i PNone) w) = all_errors w"
  by (simp add: exec_Assign(1) null_write_silent del: exec.simps)

lemma exec_fresh:
  assumes "required (checkers w d)" and "log_missing_mandatory_values (checkers w d)"
    and "attr_name (checkers w d) = Some name" and "\<forall>i. s \<noteq> Assign d i PNone"
  shows "required (checkers (exec v s w) d) \<and> log_missing_mandatory_values (checkers (exec v s w) d)
         \<and> attr_name (checkers (exec v s w) d) = Some name"
proof (cases s)
  case (Assign d' i x)
  show ?thesis
  proof (cases "d' = d")
    case True
    with assms(4) Assign have "x \<noteq> PNone" by auto
    with True assms Assign show ?thesis by (simp add: exec_Assign_fields del: exec.simps)
  next
    case False
    with assms Assign show ?thesis by (simp add: exec_Assign(3) del: exec.simps)
  qed
next
  case ClearErrors
  with assms show ?thesis by simp
next
  case (Collected d' i)
  with assms show ?thesis by (auto simp: finalise_object_fields)
qed

lemma run_fresh:
  "required (checkers w d) \<Longrightarrow> log_missing_mandatory_values (checkers w d) \<Longrightarrow>
   attr_name (checkers w d) = Some name \<Longrightarrow> \<forall>i. Assign d i PNone \<notin> set ss \<Longrightarrow>
     required (checkers (run v ss w) d) \<and> log_missing_mandatory_values (checkers (run v ss w) d)
     \<and> attr_name (checkers (run v ss w) d) = Some name"
proof (induction ss arbitrary: w)
  case Nil
  then show ?case by simp
next
  case (Cons s ss)
  from Cons.prems have "\<forall>i. s \<noteq> Assign d i PNone" by auto
  with Cons.prems have "required (checkers (exec v s w) d)
      \<and> log_missing_mandatory_values (checkers (exec v s w) d)
      \<and> attr_name (checkers (exec v s w) d) = Some name"
    using exec_fresh by blast
  moreover from Cons.prems have "\<forall>i. Assign d i PNone \<notin> set ss" by auto
  ultimately show ?case using Cons.IH by simp
qed

lemma run_null_writes_silent:
  "required (checkers w d) \<Longrightarrow> \<not> log_missing_mandatory_values (checkers w d) \<Longrightarrow>
     all_errors (run v (map (\<lambda>i. Assign d i PNone) is) w) = all_errors w"
proof (induction "is" arbitrary: w)
  case Nil
  then show ?case by simp
next
  case (Cons i "is")
  from Cons.prems have "required (checkers (exec v (Assign d i PNone) w) d)
      \<and> \<not> log_missing_mandatory_values (checkers (exec v (Assign d i PNone) w) d)"
    by (rule exec_silent)
  with Cons.IH [of "exec v (Assign d i PNone) w"] Cons.prems show ?case
    by (simp add: exec_null_write_silent del: exec.simps)
qed

lemma demo_world_Rose:
  "all_errors (run demo_validate [Assign 0 p1 (PStr ''Rose'')] demo_world) = []"
  by (simp add: demo_world_def demo_validate_def TypeChecker_set_def store_and_return_def
      store_value_p1 last_name_def set_name_def TypeChecker_init_def validate_str constraints_def
      truthy_def passed_def failed_def)

text \<open>
  Claim C4. Take a required field as \<open>__init__\<close> and \<open>__set_name__\<close> leave it, and any
  run in which \<open>None\<close> has not yet been assigned to it. The first assignment of \<open>None\<close>,
  to any instance, appends one missing-value error to the list recorded under the
  field name and changes nothing else in the registry; after it, whatever the run
  does, an assignment of \<open>None\<close> to that field through any instance leaves the
  registry as it is.
\<close>

theorem missing_value_logged_once:
  assumes "checkers w0 d
             = set_name (TypeChecker_init ty min_len max_len min_val max_val True fs enums) name"
    and "\<forall>i. Assign d i PNone \<notin> set before"
  shows "all_errors (exec v (Assign d i PNone) (run v before w0))
           = all_append (all_errors (run v before w0)) name
               (Exc (ValidationError_init (PStr name) (Mandatory (PStr name))))
       \<and> dict_get (all_errors (exec v (Assign d i PNone) (run v before w0))) name []
           = dict_get (all_errors (run v before w0)) name []
               @ [Exc (ValidationError_init (PStr name) (Mandatory (PStr name)))]
       \<and> (\<forall>later j.
             all_errors (exec v (Assign d j PNone)
                           (run v later (exec v (Assign d i PNone) (run v before w0))))
               = all_errors (run v later (exec v (Assign d i PNone) (run v before w0))))"
proof -
  let ?w = "run v before w0"
  let ?w1 = "exec v (Assign d i PNone) ?w"
  from assms(1) have "required (checkers w0 d)" "log_missing_mandatory_values (checkers w0 d)"
      "attr_name (checkers w0 d) = Some name"
    by (simp_all add: set_name_def TypeChecker_init_def)
  with assms(2) have f: "required (checkers ?w d)" "log_missing_mandatory_values (checkers ?w d)"
      "attr_name (checkers ?w d) = Some name"
    using run_fresh by blast+
  then have a: "all_errors ?w1 = all_append (all_errors ?w) name
               (Exc (ValidationError_init (PStr name) (Mandatory (PStr name))))"
    by (simp add: exec_Assign(1) null_write_first del: exec.simps)
  from f have s: "required (checkers ?w1 d)" "\<not> log_missing_mandatory_values (checkers ?w1 d)"
    by (simp_all add: exec_Assign_fields del: exec.simps)
  have "\<And>later j. all_errors (exec v (Assign d j PNone) (run v later ?w1)) = all_errors (run v later ?w1)"
  proof -
    fix later j
    from s have "required (checkers (run v later ?w1) d)
        \<and> \<not> log_missing_mandatory_values (checkers (run v later ?w1) d)"
      by (rule run_silent)
    then show "all_errors (exec v (Assign d j PNone) (run v later ?w1)) = all_errors (run v later ?w1)"
      using exec_null_write_silent by blast
  qed
  with a show ?thesis
    by (simp add: dict_get_all_append del: exec.simps)
qed

theorem missing_value_logged_once_witness:
  "checkers demo_world 0
     = set_name (TypeChecker_init (PType T_str) (Some 3) (Some 4) (PFloat NegInf) (PFloat PosInf)
                   True None None) ''last_name''
   \<and> all_errors (exec demo_validate (Assign 0 p2 PNone)
                   (run demo_validate [Assign 0 p1 (PStr ''Rose'')] demo_world))
       = [(''last_name'',
           [Exc (ValidationError_init (PStr ''last_name'') (Mandatory (PStr ''last_name'')))])]
   \<and> (\<forall>later j.
         all_errors (exec demo_validate (Assign 0 j PNone)
                       (run demo_validate later
                          (exec demo_validate (Assign 0 p2 PNone)
                             (run demo_validate [Assign 0 p1 (PStr ''Rose'')] demo_world))))
           = all_errors (run demo_validate later
                           (exec demo_validate (Assign 0 p2 PNone)
                              (run demo_validate [Assign 0 p1 (PStr ''Rose'')] demo_world))))"
proof -
  have c: "checkers demo_world 0
     = set_name (TypeChecker_init (PType T_str) (Some 3) (Some 4) (PFloat NegInf) (PFloat PosInf)
                   True None None) ''last_name''"
    by (simp add: demo_world_def last_name_def)
  have b: "\<forall>i. Assign 0 i PNone \<notin> set [Assign 0 p1 (PStr ''Rose'')]" by simp
  from missing_value_logged_once [OF c b, where v = demo_validate and i = p2] c demo_world_Rose
  show ?thesis
    by (simp add: all_append_def dict_get_def dict_setitem_def del: exec.simps run.simps)
qed

text \<open>
  Claim C10. \<open>clear_errors()\<close> empties the registry and leaves every descriptor, its
  flag and its stored values, as it is. For a required field whose flag is already
  spent, every later assignment of \<open>None\<close> leaves the registry unchanged, and a run
  of such assignments after \<open>clear_errors()\<close> ends with an empty registry.
\<close>

theorem clear_errors_keeps_flag:
  "all_errors (exec v ClearErrors w) = []
   \<and> checkers (exec v ClearErrors w) = checkers w
   \<and> (required (checkers w d) \<and> \<not> log_missing_mandatory_values (checkers w d) \<longrightarrow>
        (\<forall>later i.
           all_errors (exec v (Assign d i PNone) (run v later (exec v ClearErrors w)))
             = all_errors (run v later (exec v ClearErrors w)))
        \<and> (\<forall>is. all_errors (run v (map (\<lambda>i. Assign d i PNone) is) (exec v ClearErrors w)) = []))"
proof (intro conjI impI allI)
  show "all_errors (exec v ClearErrors w) = []" by (simp add: clear_errors_def)
  show "checkers (exec v ClearErrors w) = checkers w" by simp
next
  fix later i
  assume q: "required (checkers w d) \<and> \<not> log_missing_mandatory_values (checkers w d)"
  then have "required (checkers (exec v ClearErrors w) d)"
    "\<not> log_missing_mandatory_values (checkers (exec v ClearErrors w) d)" by simp_all
  then have "required (checkers (run v later (exec v ClearErrors w)) d)
      \<and> \<not> log_missing_mandatory_values (checkers (run v later (exec v ClearErrors w)) d)"
    by (rule run_silent)
  then show "all_errors (exec v (Assign d i PNone) (run v later (exec v ClearErrors w)))
             = all_errors (run v later (exec v ClearErrors w))"
    using exec_null_write_silent by blast
next
  fix "is"
  assume q: "required (checkers w d) \<and> \<not> log_missing_mandatory_values (checkers w d)"
  then have "required (checkers (exec v ClearErrors w) d)"
    "\<not> log_missing_mandatory_values (checkers (exec v ClearErrors w) d)" by simp_all
  then have "all_errors (run v (map (\<lambda>i. Assign d i PNone) is) (exec v ClearErrors w))
      = all_errors (exec v ClearErrors w)"
    by (rule run_null_writes_silent)
  then show "all_errors (run v (map (\<lambda>i. Assign d i PNone) is) (exec v ClearErrors w)) = []"
    by (simp add: clear_errors_def)
qed

theorem clear_errors_keeps_flag_witness:
  "required (checkers (exec demo_validate (Assign 0 p2 PNone) demo_world) 0)
   \<and> \<not> log_missing_mandatory_values (checkers (exec demo_validate (Assign 0 p2 PNone) demo_world) 0)
   \<and> all_errors (exec demo_validate (Assign 0 p2 PNone) demo_world)
       = [(''last_name'',
           [Exc (ValidationError_init (PStr ''last_name'') (Mandatory (PStr ''last_name'')))])]
   \<and> all_errors (exec demo_validate ClearErrors (exec demo_validate (Assign 0 p2 PNone) demo_world)) = []
   \<and> checkers (exec demo_validate ClearErrors (exec demo_validate (Assign 0 p2 PNone) demo_world))
       = checkers (exec demo_validate (Assign 0 p2 PNone) demo_world)
   \<and> all_errors (run demo_validate (map (\<lambda>i. Assign 0 i PNone) [p1, slotted])
                   (exec demo_validate ClearErrors (exec demo_validate (Assign 0 p2 PNone) demo_world)))
       = []"
proof -
  have l: "required (checkers demo_world 0)" "log_missing_mandatory_values (checkers demo_world 0)"
    "attr_name (checkers demo_world 0) = Some ''last_name''" "all_errors demo_world = []"
    by (simp_all add: demo_world_def last_name_def set_name_def TypeChecker_init_def)
  have q: "required (checkers (exec demo_validate (Assign 0 p2 PNone) demo_world) 0)
     \<and> \<not> log_missing_mandatory_values (checkers (exec demo_validate (Assign 0 p2 PNone) demo_world) 0)"
    using l by (simp add: exec_Assign_fields del: exec.simps)
  have a: "all_errors (exec demo_validate (Assign 0 p2 PNone) demo_world)
       = [(''last_name'',
           [Exc (ValidationError_init (PStr ''last_name'') (Mandatory (PStr ''last_name'')))])]"
    using l by (simp add: exec_Assign(1) null_write_first all_append_def dict_get_def
        dict_setitem_def del: exec.simps)
  note t = clear_errors_keeps_flag [where v = demo_validate
      and w = "exec demo_validate (Assign 0 p2 PNone) demo_world" and d = 0]
  from t have t1:
    "all_errors (exec demo_validate ClearErrors (exec demo_validate (Assign 0 p2 PNone) demo_world)) = []"
    by blast
  from t have t2:
    "checkers (exec demo_validate ClearErrors (exec demo_validate (Assign 0 p2 PNone) demo_world))
       = checkers (exec demo_validate (Assign 0 p2 PNone) demo_world)"
    by blast
  from t q have "\<forall>is. all_errors (run demo_validate (map (\<lambda>i. Assign 0 i PNone) is)
                   (exec demo_validate ClearErrors (exec demo_validate (Assign 0 p2 PNone) demo_world)))
       = []"
    by blast
  then have t3: "all_errors (run demo_validate (map (\<lambda>i. Assign 0 i PNone) [p1, slotted])
                   (exec demo_validate ClearErrors (exec demo_validate (Assign 0 p2 PNone) demo_world)))
       = []"
    by (rule spec)
  from q a t1 t2 t3 show ?thesis by blast
qed

section \<open>The range check of the numeric validators\<close>

lemma float_lt_irrefl: "\<not> float_lt x x"
  by (cases x) simp_all

lemma chained_lt_real:
  "real_value lo = Some l \<Longrightarrow> real_value v = Some x \<Longrightarrow> real_value hi = Some h \<Longrightarrow>
     chained_lt lo v hi = Inr (float_lt l x \<and> float_lt x h)"
  by (simp add: chained_lt_def py_lt_def)

lemma real_value_not_None: "real_value v = Some x \<Longrightarrow> v \<noteq> PNone \<and> isinstance_Real v"
  by (auto simp: isinstance_Real_def)

text \<open>
  The comparison itself is strict. Let the bounds be numbers and the value a number. A
  value equal to \<open>min_value\<close> or to \<open>max_value\<close> fails the validation of a decimal
  field with the out-of-range error, and fails the validation of an integer field
  whenever the integrality test \<open>float(value) != int(value)\<close> returns. A value
  strictly between the bounds passes \<open>min_value < value < max_value\<close>: an integer
  field accepts it when the integrality test returns false, and a decimal field
  never reports it out of range.
\<close>

lemma range_check_is_strict:
  assumes "real_value (kw_min_value kw) = Some lo"
    and "real_value (kw_max_value kw) = Some hi"
    and "real_value v = Some x"
  shows "(x = lo \<or> x = hi \<longrightarrow>
            validate_float lib [ty, v, attr] kw
              = failed attr (FloatOutOfRange attr (kw_min_value kw) (kw_max_value kw) v)
            \<and> (\<forall>ne. float_ne_int v = Inr ne \<longrightarrow>
                  validate_integer [ty, v, attr] kw
                    = failed attr (if ne then NotInteger attr v
                                   else IntOutOfRange attr (kw_min_value kw) (kw_max_value kw))))
       \<and> (float_lt lo x \<and> float_lt x hi \<longrightarrow>
            chained_lt (kw_min_value kw) v (kw_max_value kw) = Inr True
            \<and> (float_ne_int v = Inr False \<longrightarrow> validate_integer [ty, v, attr] kw = passed)
            \<and> (kw_max_length kw = None \<longrightarrow> validate_float lib [ty, v, attr] kw = passed)
            \<and> validate_float lib [ty, v, attr] kw
                \<noteq> failed attr (FloatOutOfRange attr (kw_min_value kw) (kw_max_value kw) v))"
proof -
  note c = chained_lt_real [OF assms(1) assms(3) assms(2)]
  note n = real_value_not_None [OF assms(3)]
  have edge: "x = lo \<or> x = hi \<Longrightarrow> chained_lt (kw_min_value kw) v (kw_max_value kw) = Inr False"
    using c float_lt_irrefl by auto
  have inside: "float_lt lo x \<and> float_lt x hi \<Longrightarrow>
      chained_lt (kw_min_value kw) v (kw_max_value kw) = Inr True"
    using c by simp
  show ?thesis
  proof (intro conjI impI allI)
    assume e: "x = lo \<or> x = hi"
    show "validate_float lib [ty, v, attr] kw
              = failed attr (FloatOutOfRange attr (kw_min_value kw) (kw_max_value kw) v)"
      using n edge [OF e] by simp
  next
    fix ne
    assume e: "x = lo \<or> x = hi" and f: "float_ne_int v = Inr ne"
    show "validate_integer [ty, v, attr] kw
            = failed attr (if ne then NotInteger attr v
                           else IntOutOfRange attr (kw_min_value kw) (kw_max_value kw))"
      using n edge [OF e] f by simp
  next
    assume i: "float_lt lo x \<and> float_lt x hi"
    show "chained_lt (kw_min_value kw) v (kw_max_value kw) = Inr True"
      using inside [OF i] .
  next
    assume i: "float_lt lo x \<and> float_lt x hi" and f: "float_ne_int v = Inr False"
    show "validate_integer [ty, v, attr] kw = passed"
      using n inside [OF i] f by simp
  next
    assume i: "float_lt lo x \<and> float_lt x hi" and m: "kw_max_length kw = None"
    show "validate_float lib [ty, v, attr] kw = passed"
      using n inside [OF i] m by simp
  next
    assume i: "float_lt lo x \<and> float_lt x hi"
    show "validate_float lib [ty, v, attr] kw
            \<noteq> failed attr (FloatOutOfRange attr (kw_min_value kw) (kw_max_value kw) v)"
      using n inside [OF i]
      by (simp add: failed_def passed_def ValidationError_init_def Let_def split: option.splits)
  qed
qed

lemma range_check_is_strict_example:
  "validate_integer [PType T_int, PInt 0, PStr ''age''] (constraints age)
     = failed (PStr ''age'') (IntOutOfRange (PStr ''age'') (PInt 0) (PInt 100))
   \<and> validate_integer [PType T_int, PInt 100, PStr ''age''] (constraints age)
     = failed (PStr ''age'') (IntOutOfRange (PStr ''age'') (PInt 0) (PInt 100))
   \<and> validate_integer [PType T_int, PInt 50, PStr ''age''] (constraints age) = passed
   \<and> validate_float demo_lib [PType T_float, PInt 100000, PStr ''salary''] (constraints salary)
     = failed (PStr ''salary'')
         (FloatOutOfRange (PStr ''salary'') (PInt 0) (PInt 100000) (PInt 100000))
   \<and> chained_lt (PInt 0) (PFloat (Finite (201 / 2))) (PInt 100000) = Inr True"
proof -
  have ca: "kw_min_value (constraints age) = PInt 0" "kw_max_value (constraints age) = PInt 100"
    by (simp_all add: age_def set_name_def TypeChecker_init_def constraints_def)
  have cs: "kw_min_value (constraints salary) = PInt 0"
    "kw_max_value (constraints salary) = PInt 100000"
    by (simp_all add: salary_def set_name_def TypeChecker_init_def constraints_def)
  have a_lo: "real_value (kw_min_value (constraints age)) = Some (Finite 0)"
    and a_hi: "real_value (kw_max_value (constraints age)) = Some (Finite 100)"
    by (simp_all add: ca)
  have s_lo: "real_value (kw_min_value (constraints salary)) = Some (Finite 0)"
    and s_hi: "real_value (kw_max_value (constraints salary)) = Some (Finite 100000)"
    by (simp_all add: cs)
  have b: "bit_length 0 = 0" "bit_length 100 = 7" "bit_length 50 = 6"
    by code_simp+
  have f: "float_ne_int (PInt 0) = Inr False" "float_ne_int (PInt 100) = Inr False"
    "float_ne_int (PInt 50) = Inr False"
    by (simp_all add: float_ne_int_def float_of_int_def b Let_def)
  have v0: "real_value (PInt 0) = Some (Finite 0)"
    and v100: "real_value (PInt 100) = Some (Finite 100)"
    and v50: "real_value (PInt 50) = Some (Finite 50)"
    and vmax: "real_value (PInt 100000) = Some (Finite 100000)"
    and vhalf: "real_value (PFloat (Finite (201 / 2))) = Some (Finite (201 / 2))"
    by simp_all
  have i50: "float_lt (Finite 0) (Finite 50) \<and> float_lt (Finite 50) (Finite 100)"
    and ihalf: "float_lt (Finite 0) (Finite (201 / 2)) \<and> float_lt (Finite (201 / 2)) (Finite 100000)"
    by simp_all
  from range_check_is_strict [OF a_lo a_hi v0, where ty = "PType T_int" and attr = "PStr ''age''"]
    f(1)
  have "validate_integer [PType T_int, PInt 0, PStr ''age''] (constraints age)
     = failed (PStr ''age'')
         (if False then NotInteger (PStr ''age'') (PInt 0)
          else IntOutOfRange (PStr ''age'') (kw_min_value (constraints age))
                 (kw_max_value (constraints age)))"
    by blast
  then have 1: "validate_integer [PType T_int, PInt 0, PStr ''age''] (constraints age)
     = failed (PStr ''age'') (IntOutOfRange (PStr ''age'') (PInt 0) (PInt 100))"
    by (simp only: ca if_False)
  from range_check_is_strict [OF a_lo a_hi v100, where ty = "PType T_int" and attr = "PStr ''age''"]
    f(2)
  have "validate_integer [PType T_int, PInt 100, PStr ''age''] (constraints age)
     = failed (PStr ''age'')
         (if False then NotInteger (PStr ''age'') (PInt 100)
          else IntOutOfRange (PStr ''age'') (kw_min_value (constraints age))
                 (kw_max_value (constraints age)))"
    by blast
  then have 2: "validate_integer [PType T_int, PInt 100, PStr ''age''] (constraints age)
     = failed (PStr ''age'') (IntOutOfRange (PStr ''age'') (PInt 0) (PInt 100))"
    by (simp only: ca if_False)
  from range_check_is_strict [OF a_lo a_hi v50, where ty = "PType T_int" and attr = "PStr ''age''"]
    f(3) i50
  have 3: "validate_integer [PType T_int, PInt 50, PStr ''age''] (constraints age) = passed"
    by blast
  from range_check_is_strict [OF s_lo s_hi vmax, where ty = "PType T_float"
      and attr = "PStr ''salary''" and lib = demo_lib]
  have "validate_float demo_lib [PType T_float, PInt 100000, PStr ''salary''] (constraints salary)
     = failed (PStr ''salary'')
         (FloatOutOfRange (PStr ''salary'') (kw_min_value (constraints salary))
            (kw_max_value (constraints salary)) (PInt 100000))"
    by blast
  then have 4: "validate_float demo_lib [PType T_float, PInt 100000, PStr ''salary''] (constraints salary)
     = failed (PStr ''salary'')
         (FloatOutOfRange (PStr ''salary'') (PInt 0) (PInt 100000) (PInt 100000))"
    by (simp only: cs)
  from range_check_is_strict [OF s_lo s_hi vhalf] ihalf
  have "chained_lt (kw_min_value (constraints salary)) (PFloat (Finite (201 / 2)))
          (kw_max_value (constraints salary)) = Inr True"
    by blast
  then have 5: "chained_lt (PInt 0) (PFloat (Finite (201 / 2))) (PInt 100000) = Inr True"
    by (simp only: cs)
  from 1 2 3 4 5 show ?thesis by blast
qed

text \<open>
  Claim C5. The claim says that a numeric value equal to \<open>max_value\<close> fails validation.
  On the integer field \<open>quantity\<close>, whose \<open>max_value\<close> is \<open>float('inf')\<close>, the value
  \<open>float('inf')\<close> equals \<open>max_value\<close>, yet the integrality test
  \<open>float(value) != int(value)\<close>, written to return the not-an-integer error, raises
  \<open>OverflowError\<close> in \<open>int(value)\<close>: the assignment raises, records no error and stores
  nothing. The validator of decimal fields returns the out-of-range error for the same
  value and bounds.
\<close>

theorem integer_field_raises_at_infinite_bound:
  "py_eq (PFloat PosInf) (max_value quantity)
   \<and> validate_integer [type quantity, PFloat PosInf, PStr ''quantity''] (constraints quantity)
       = Inl OverflowError
   \<and> TypeChecker_set (Dispatcher_call validate (module_store lib)) quantity p1 (PFloat PosInf) []
       = (Some OverflowError, quantity, [])
   \<and> validate_float lib [PType T_float, PFloat PosInf, PStr ''quantity''] (constraints quantity)
       = failed (PStr ''quantity'')
           (FloatOutOfRange (PStr ''quantity'') (PInt 0) (PFloat PosInf) (PFloat PosInf))"
proof -
  have q: "type quantity = PType T_int" "attr_name quantity = Some ''quantity''"
    "max_value quantity = PFloat PosInf" "required quantity = False"
    "kw_min_value (constraints quantity) = PInt 0"
    "kw_max_value (constraints quantity) = PFloat PosInf"
    by (simp_all add: quantity_def set_name_def TypeChecker_init_def constraints_def)
  have v: "validate_integer [type quantity, PFloat PosInf, PStr ''quantity''] (constraints quantity)
       = Inl OverflowError"
    by (simp add: isinstance_Real_def float_ne_int_def)
  have s: "TypeChecker_set (Dispatcher_call validate (module_store lib)) quantity p1 (PFloat PosInf) []
       = (Some OverflowError, quantity, [])"
    using v by (simp add: TypeChecker_set_def q validate_int)
  have f: "validate_float lib [PType T_float, PFloat PosInf, PStr ''quantity''] (constraints quantity)
       = failed (PStr ''quantity'')
           (FloatOutOfRange (PStr ''quantity'') (PInt 0) (PFloat PosInf) (PFloat PosInf))"
    by (simp add: q isinstance_Real_def chained_lt_def py_lt_def)
  from v s f q show ?thesis by (simp add: py_eq_def)
qed

end
